theory Spec2Isabelle
  imports Complex_Main
begin

section \<open>Python and numpy primitives used by the assessment engine\<close>

text \<open>
  Python floats are modelled as the real numbers they denote (exact arithmetic, no
  rounding, no overflow, no NaN); Python's unbounded \<open>int\<close> is \<open>int\<close>; \<open>str\<close> is
  \<open>string\<close>. Exceptions are values of the type \<open>error\<close>, returned as \<open>Inl\<close>.
\<close>

datatype error =
    ValueError_gender            \<comment> \<open>ValueError: Gender must be 'male' or 'female'\<close>
  | ValueError_age               \<comment> \<open>ValueError: Age must be between 2 and 19 years\<close>
  | ValueError_percentile_range  \<comment> \<open>numpy: Percentiles must be in the range [0, 100]\<close>
  | KeyError
  | IndexError
  | AttributeError               \<comment> \<open>a method called on None\<close>
  | DecodeError                  \<comment> \<open>PIL cannot open the image\<close>

text \<open>\<open>int(x)\<close> on a float truncates towards zero.\<close>

definition py_int :: "real \<Rightarrow> int" where
  "py_int x = (if 0 \<le> x then \<lfloor>x\<rfloor> else \<lceil>x\<rceil>)"

text \<open>\<open>str.lower()\<close> on the ASCII letters.\<close>

definition char_lower :: "char \<Rightarrow> char" where
  "char_lower c =
     (case map_of (zip ''ABCDEFGHIJKLMNOPQRSTUVWXYZ'' ''abcdefghijklmnopqrstuvwxyz'') c of
        Some d \<Rightarrow> d
      | None \<Rightarrow> c)"

definition lower :: "string \<Rightarrow> string" where
  "lower s = map char_lower s"

text \<open>\<open>needle in haystack\<close> on strings: the needle occurs as a contiguous substring.\<close>

primrec py_in :: "string \<Rightarrow> string \<Rightarrow> bool" where
  "py_in needle [] = (needle = [])"
| "py_in needle (c # cs) = (take (length needle) (c # cs) = needle \<or> py_in needle cs)"

text \<open>\<open>float(s)\<close> for a string of decimal digits (the only strings the estimator parses).\<close>

definition digit_val :: "char \<Rightarrow> nat" where
  "digit_val c = of_char c - 48"

definition py_float :: "string \<Rightarrow> real" where
  "py_float s = real (foldl (\<lambda>acc c. 10 * acc + digit_val c) 0 s)"

text \<open>Dictionary subscription \<open>d[k]\<close> on an insertion-ordered dictionary.\<close>

definition dict_get :: "('k \<times> 'v) list \<Rightarrow> 'k \<Rightarrow> error + 'v" where
  "dict_get d k = (case map_of d k of None \<Rightarrow> Inl KeyError | Some v \<Rightarrow> Inr v)"

text \<open>
  \<open>np.argmin\<close>: the index of the first occurrence of the minimum. numpy raises on an
  empty array; the only array passed here is the 18-entry age column.
\<close>

fun argmin_from :: "nat \<Rightarrow> nat \<Rightarrow> real \<Rightarrow> real list \<Rightarrow> nat" where
  "argmin_from i best_i best [] = best_i"
| "argmin_from i best_i best (x # xs) =
     (if x < best then argmin_from (Suc i) i x xs else argmin_from (Suc i) best_i best xs)"

definition np_argmin :: "real list \<Rightarrow> nat" where
  "np_argmin xs = (case xs of [] \<Rightarrow> 0 | x # rest \<Rightarrow> argmin_from 1 0 x rest)"

text \<open>
  \<open>np.percentile(a, q)\<close> with the default linear method: \<open>q\<close> outside \<open>[0, 100]\<close> raises
  ValueError; otherwise the sorted array is read at the virtual index \<open>q / 100 * (n - 1)\<close>,
  interpolating linearly between the two neighbouring order statistics. The estimator
  always passes an array of 10000 samples; numpy's NaN for an empty array has no
  counterpart among the reals and is reported as IndexError here.
\<close>

definition np_percentile :: "real list \<Rightarrow> real \<Rightarrow> error + real" where
  "np_percentile a q =
     (if q < 0 \<or> 100 < q then Inl ValueError_percentile_range
      else if a = [] then Inl IndexError
      else
        let arr = sort a;
            n = length arr;
            virtual_index = q / 100 * real (n - 1);
            previous_index = nat \<lfloor>virtual_index\<rfloor>;
            next_index = min (previous_index + 1) (n - 1);
            gamma = virtual_index - real previous_index
        in Inr (arr ! previous_index + gamma * (arr ! next_index - arr ! previous_index)))"

section \<open>WHOStandards: the growth reference table\<close>

definition male_data :: "(string \<times> real list) list" where
  "male_data =
    [(''ages'', [2, 3, 4, 5, 6, 7, 8, 9, 10, 11, 12, 13, 14, 15, 16, 17, 18, 19]),
     (''p3'', [14.1, 13.9, 13.8, 13.7, 13.6, 13.5, 13.4, 13.3, 13.2, 13.1, 13.0, 12.9, 12.8, 12.7, 12.6, 12.5, 12.4, 12.3]),
     (''p5'', [14.5, 14.3, 14.2, 14.1, 14.0, 13.9, 13.8, 13.7, 13.6, 13.5, 13.4, 13.3, 13.2, 13.1, 13.0, 12.9, 12.8, 12.7]),
     (''p10'', [15.0, 14.8, 14.7, 14.6, 14.5, 14.4, 14.3, 14.2, 14.1, 14.0, 13.9, 13.8, 13.7, 13.6, 13.5, 13.4, 13.3, 13.2]),
     (''p25'', [15.8, 15.6, 15.5, 15.4, 15.3, 15.2, 15.1, 15.0, 14.9, 14.8, 14.7, 14.6, 14.5, 14.4, 14.3, 14.2, 14.1, 14.0]),
     (''p50'', [16.5, 16.3, 16.2, 16.1, 16.0, 15.9, 15.8, 15.7, 15.6, 15.5, 15.4, 15.3, 15.2, 15.1, 15.0, 14.9, 14.8, 14.7]),
     (''p75'', [17.3, 17.1, 17.0, 16.9, 16.8, 16.7, 16.6, 16.5, 16.4, 16.3, 16.2, 16.1, 16.0, 15.9, 15.8, 15.7, 15.6, 15.5]),
     (''p90'', [18.2, 18.0, 17.9, 17.8, 17.7, 17.6, 17.5, 17.4, 17.3, 17.2, 17.1, 17.0, 16.9, 16.8, 16.7, 16.6, 16.5, 16.4]),
     (''p95'', [19.0, 18.8, 18.7, 18.6, 18.5, 18.4, 18.3, 18.2, 18.1, 18.0, 17.9, 17.8, 17.7, 17.6, 17.5, 17.4, 17.3, 17.2]),
     (''p97'', [19.8, 19.6, 19.5, 19.4, 19.3, 19.2, 19.1, 19.0, 18.9, 18.8, 18.7, 18.6, 18.5, 18.4, 18.3, 18.2, 18.1, 18.0])]"

definition female_data :: "(string \<times> real list) list" where
  "female_data =
    [(''ages'', [2, 3, 4, 5, 6, 7, 8, 9, 10, 11, 12, 13, 14, 15, 16, 17, 18, 19]),
     (''p3'', [13.9, 13.7, 13.6, 13.5, 13.4, 13.3, 13.2, 13.1, 13.0, 12.9, 12.8, 12.7, 12.6, 12.5, 12.4, 12.3, 12.2, 12.1]),
     (''p5'', [14.3, 14.1, 14.0, 13.9, 13.8, 13.7, 13.6, 13.5, 13.4, 13.3, 13.2, 13.1, 13.0, 12.9, 12.8, 12.7, 12.6, 12.5]),
     (''p10'', [14.8, 14.6, 14.5, 14.4, 14.3, 14.2, 14.1, 14.0, 13.9, 13.8, 13.7, 13.6, 13.5, 13.4, 13.3, 13.2, 13.1, 13.0]),
     (''p25'', [15.6, 15.4, 15.3, 15.2, 15.1, 15.0, 14.9, 14.8, 14.7, 14.6, 14.5, 14.4, 14.3, 14.2, 14.1, 14.0, 13.9, 13.8]),
     (''p50'', [16.3, 16.1, 16.0, 15.9, 15.8, 15.7, 15.6, 15.5, 15.4, 15.3, 15.2, 15.1, 15.0, 14.9, 14.8, 14.7, 14.6, 14.5]),
     (''p75'', [17.1, 16.9, 16.8, 16.7, 16.6, 16.5, 16.4, 16.3, 16.2, 16.1, 16.0, 15.9, 15.8, 15.7, 15.6, 15.5, 15.4, 15.3]),
     (''p90'', [18.0, 17.8, 17.7, 17.6, 17.5, 17.4, 17.3, 17.2, 17.1, 17.0, 16.9, 16.8, 16.7, 16.6, 16.5, 16.4, 16.3, 16.2]),
     (''p95'', [18.8, 18.6, 18.5, 18.4, 18.3, 18.2, 18.1, 18.0, 17.9, 17.8, 17.7, 17.6, 17.5, 17.4, 17.3, 17.2, 17.1, 17.0]),
     (''p97'', [19.6, 19.4, 19.3, 19.2, 19.1, 19.0, 18.9, 18.8, 18.7, 18.6, 18.5, 18.4, 18.3, 18.2, 18.1, 18.0, 17.9, 17.8])]"

definition BMI_REFERENCE_DATA :: "(string \<times> (string \<times> real list) list) list" where
  "BMI_REFERENCE_DATA = [(''male'', male_data), (''female'', female_data)]"

definition percentiles :: "string list" where
  "percentiles = [''p3'', ''p5'', ''p10'', ''p25'', ''p50'', ''p75'', ''p90'', ''p95'', ''p97'']"

section \<open>WHOStandards.calculate_bmi_percentile_and_zscore\<close>

text \<open>
  The table lookup of the estimator: the row of the nine band thresholds at the age
  knot nearest to \<open>age_years\<close> (\<open>np.argmin\<close> of the absolute differences).
\<close>

definition age_index :: "real list \<Rightarrow> real \<Rightarrow> nat" where
  "age_index ages age_years = np_argmin (map (\<lambda>a. \<bar>a - age_years\<bar>) ages)"

definition column_at :: "(string \<times> real list) list \<Rightarrow> nat \<Rightarrow> string \<Rightarrow> error + real" where
  "column_at gender_data age_idx p =
     (case dict_get gender_data p of
        Inl e \<Rightarrow> Inl e
      | Inr col \<Rightarrow> if age_idx < length col then Inr (col ! age_idx) else Inl IndexError)"

fun collect :: "(error + 'a) list \<Rightarrow> error + 'a list" where
  "collect [] = Inr []"
| "collect (Inl e # rs) = Inl e"
| "collect (Inr v # rs) = (case collect rs of Inl e \<Rightarrow> Inl e | Inr vs \<Rightarrow> Inr (v # vs))"

definition bmi_values_at :: "(string \<times> real list) list \<Rightarrow> nat \<Rightarrow> error + real list" where
  "bmi_values_at gender_data age_idx = collect (map (column_at gender_data age_idx) percentiles)"

text \<open>
  The percentile by interpolation (the \<open>if / elif / else\<close> with its \<open>for ... else\<close>):
  linear scaling below the 3rd-percentile threshold, linear extrapolation above the
  97th, and between them the first pair of adjacent bands that brackets \<open>bmi\<close>; the
  loop's \<open>else\<close> gives the median when no pair brackets it.
\<close>

definition interpolate_percentile :: "real \<Rightarrow> real list \<Rightarrow> real" where
  "interpolate_percentile bmi bmi_values =
     (if bmi \<le> bmi_values ! 0 then 3.0 * (bmi / bmi_values ! 0)
      else if bmi \<ge> last bmi_values then 97.0 + (3.0 * (bmi - last bmi_values) / last bmi_values)
      else
        (case find (\<lambda>i. bmi_values ! i \<le> bmi \<and> bmi \<le> bmi_values ! (i + 1))
                [0 ..< length bmi_values - 1] of
           Some i \<Rightarrow>
             let p1 = py_float (drop 1 (percentiles ! i));
                 p2 = py_float (drop 1 (percentiles ! (i + 1)));
                 bmi1 = bmi_values ! i;
                 bmi2 = bmi_values ! (i + 1)
             in p1 + (p2 - p1) * (bmi - bmi1) / (bmi2 - bmi1)
         | None \<Rightarrow> 50.0))"

text \<open>
  The first part of the estimator (the two validity checks, the table lookup and the
  interpolation): the percentile, which does not depend on the random draw.
\<close>

definition calculate_bmi_percentile :: "real \<Rightarrow> real \<Rightarrow> string \<Rightarrow> error + real" where
  "calculate_bmi_percentile age_years bmi gender =
     (if lower gender \<notin> set [''male'', ''female''] then Inl ValueError_gender
      else if age_years < 2 \<or> age_years > 19 then Inl ValueError_age
      else
        (case dict_get BMI_REFERENCE_DATA (lower gender) of
           Inl e \<Rightarrow> Inl e
         | Inr gender_data \<Rightarrow>
            (case dict_get gender_data ''ages'' of
               Inl e \<Rightarrow> Inl e
             | Inr ages \<Rightarrow>
                (let age_idx = age_index ages age_years in
                 case bmi_values_at gender_data age_idx of
                   Inl e \<Rightarrow> Inl e
                 | Inr bmi_values \<Rightarrow> Inr (interpolate_percentile bmi bmi_values)))))"

text \<open>
  The second part, the z-score: the estimator draws 10000 standard-normal samples
  (\<open>np.random.standard_normal(10000)\<close>) and reads their empirical percentile. The draw
  is the argument \<open>samples\<close>: the value the random generator returns in this call.
\<close>

definition z_score_of :: "real list \<Rightarrow> real \<Rightarrow> error + real" where
  "z_score_of samples percentile =
     (if percentile \<le> 50 then
        (case np_percentile samples percentile of
           Inl e \<Rightarrow> Inl e | Inr v \<Rightarrow> Inr (- \<bar>v\<bar>))
      else
        (case np_percentile samples (100 - percentile) of
           Inl e \<Rightarrow> Inl e | Inr v \<Rightarrow> Inr \<bar>v\<bar>))"

definition calculate_bmi_percentile_and_zscore ::
  "real list \<Rightarrow> real \<Rightarrow> real \<Rightarrow> string \<Rightarrow> error + (real \<times> real)" where
  "calculate_bmi_percentile_and_zscore samples age_years bmi gender =
     (case calculate_bmi_percentile age_years bmi gender of
        Inl e \<Rightarrow> Inl e
      | Inr percentile \<Rightarrow>
         (case z_score_of samples percentile of
            Inl e \<Rightarrow> Inl e
          | Inr z_score \<Rightarrow> Inr (percentile, z_score)))"

text \<open>
  The invariant of a row of band thresholds: nine values, positive and strictly
  increasing from the 3rd to the 97th percentile band.
\<close>

definition band_thresholds_ok :: "real list \<Rightarrow> bool" where
  "band_thresholds_ok bmi_values \<longleftrightarrow>
     length bmi_values = 9 \<and> 0 < bmi_values ! 0 \<and> sorted_wrt (<) bmi_values"

section \<open>WHOStandards.get_bmi_category\<close>

text \<open>The bare \<open>except:\<close> catches every exception of the estimator.\<close>

definition get_bmi_category :: "real list \<Rightarrow> real \<Rightarrow> real \<Rightarrow> string \<Rightarrow> string" where
  "get_bmi_category samples bmi age_years gender =
     (case calculate_bmi_percentile_and_zscore samples age_years bmi gender of
        Inr (percentile, z_score) \<Rightarrow>
          (if percentile < 5 then ''Underweight''
           else if percentile < 85 then ''Normal''
           else if percentile < 97 then ''Overweight''
           else ''Obese'')
      | Inl e \<Rightarrow>
          (if bmi < 18.5 then ''Underweight''
           else if bmi < 25 then ''Normal''
           else if bmi < 30 then ''Overweight''
           else ''Obese''))"

section \<open>MalnutritionRiskAssessment.calculate_risk_score\<close>

record risk_assessment =
  risk_score :: int
  risk_level :: string
  bmi_risk :: int
  z_score_risk :: int
  skin_risk :: int
  nail_risk :: int

definition calculate_risk_score ::
  "real \<Rightarrow> real \<Rightarrow> string \<Rightarrow> string \<Rightarrow> real \<Rightarrow> real \<Rightarrow> real \<Rightarrow> risk_assessment" where
  "calculate_risk_score bmi_percentile bmi_z_score skin_health nail_health
      skin_confidence nail_confidence age_years =
     (let score = (0::int);
          score = score +
            (if bmi_percentile < 5 then 40
             else if bmi_percentile < 10 then 30
             else if bmi_percentile < 25 then 20
             else if bmi_percentile \<ge> 97 then 35
             else if bmi_percentile \<ge> 85 then 25
             else 0);
          score = score +
            (if \<bar>bmi_z_score\<bar> > 2.0 then 20
             else if \<bar>bmi_z_score\<bar> > 1.5 then 15
             else if \<bar>bmi_z_score\<bar> > 1.0 then 10
             else 0);
          score = score +
            (if py_in ''unhealthy'' skin_health then py_int (20 * (1 - skin_confidence))
             else py_int (5 * (1 - skin_confidence)));
          score = score +
            (if py_in ''unhealthy'' nail_health then py_int (20 * (1 - nail_confidence))
             else py_int (5 * (1 - nail_confidence)));
          score =
            (if age_years < 5 then py_int (real_of_int score * 1.2)
             else if age_years > 15 then py_int (real_of_int score * 1.1)
             else score);
          score = min 100 score;
          level =
            (if score < 20 then ''Low''
             else if score < 40 then ''Medium''
             else if score < 60 then ''High''
             else ''Critical'')
      in \<lparr>risk_score = score, risk_level = level,
          bmi_risk = min 40 score, z_score_risk = min 20 score,
          skin_risk = min 20 score, nail_risk = min 20 score\<rparr>)"

section \<open>The image health classifier (model.py)\<close>

text \<open>
  The feature extractors (VGG16 for nails, ResNet152V2 for skin) and the image decoder
  are external: an image is given by what they return for it. A feature vector is the
  list of its components; the vectors of one extractor have one length.
\<close>

type_synonym vec = "real list"

record image =
  decodable :: bool            \<comment> \<open>\<open>Image.open\<close> succeeds\<close>
  vgg16_feature :: vec         \<comment> \<open>\<open>_vgg16_feature_extractor.predict(x).squeeze()\<close>\<close>
  resnet_feature :: vec        \<comment> \<open>\<open>_resnet_feature_extractor.predict(x).squeeze()\<close>\<close>
  mean_saturation :: real      \<comment> \<open>\<open>np.mean(arr[:, :, 1])\<close> of the HSV image\<close>
  mean_value :: real           \<comment> \<open>\<open>np.mean(arr[:, :, 2])\<close> of the HSV image\<close>

text \<open>A centroid dictionary: class name to centroid, or to \<open>None\<close>, in insertion order.\<close>

type_synonym centroids = "(string \<times> vec option) list"

definition NAIL_CLASSES :: "string list" where
  "NAIL_CLASSES = [''healthy_nails'', ''unhealthy_nails'']"

definition SKIN_CLASSES :: "string list" where
  "SKIN_CLASSES = [''healthy_skin'', ''unhealthy_skin'']"

text \<open>The module's globals for lazy initialisation.\<close>

record model_state =
  nail_class_to_centroid :: "centroids option"
  skin_class_to_centroid :: "centroids option"
  use_heuristic_fallback :: bool

definition initial_state :: model_state where
  "initial_state =
     \<lparr>nail_class_to_centroid = None, skin_class_to_centroid = None,
      use_heuristic_fallback = False\<rparr>"

text \<open>
  The reference collection maps a class name to the images listed in its directory
  (none when the directory is absent). An image whose decoding or feature extraction
  raises is skipped by the \<open>try / except: continue\<close>.
\<close>

definition class_features :: "(image \<Rightarrow> vec) \<Rightarrow> image list \<Rightarrow> vec list" where
  "class_features extract imgs = map extract (filter decodable imgs)"

text \<open>\<open>np.mean(v, axis=0)\<close> of a non-empty list of vectors: the componentwise mean.\<close>

definition np_mean_axis0 :: "vec list \<Rightarrow> vec" where
  "np_mean_axis0 vs =
     (case vs of
        [] \<Rightarrow> []
      | v # _ \<Rightarrow> map (\<lambda>i. (\<Sum>w\<leftarrow>vs. w ! i) / real (length vs)) [0 ..< length v])"

definition mean_centroids :: "(string \<times> vec list) list \<Rightarrow> centroids" where
  "mean_centroids feats =
     map (\<lambda>(c, v). (c, if length v > 0 then Some (np_mean_axis0 v) else None)) feats"

definition compute_centroids :: "(string \<Rightarrow> image list) \<Rightarrow> model_state \<Rightarrow> model_state" where
  "compute_centroids dataset st =
     (let nail_centroids = map (\<lambda>c. (c, class_features vgg16_feature (dataset c))) NAIL_CLASSES;
          skin_centroids = map (\<lambda>c. (c, class_features resnet_feature (dataset c))) SKIN_CLASSES;
          nail = mean_centroids nail_centroids;
          skin = mean_centroids skin_centroids;
          no_nail_centroids = list_all (\<lambda>(c, val). val = None) nail;
          no_skin_centroids = list_all (\<lambda>(c, val). val = None) skin
      in st\<lparr>nail_class_to_centroid := Some nail,
            skin_class_to_centroid := Some skin,
            use_heuristic_fallback := (no_nail_centroids \<or> no_skin_centroids)\<rparr>)"

text \<open>One caller at a time: the lock of \<open>_ensure_initialized\<close> is not part of this model.\<close>

definition ensure_initialized :: "(string \<Rightarrow> image list) \<Rightarrow> model_state \<Rightarrow> model_state" where
  "ensure_initialized dataset st =
     (if nail_class_to_centroid st \<noteq> None \<and> skin_class_to_centroid st \<noteq> None then st
      else compute_centroids dataset st)"

definition has_valid_centroids :: "centroids \<Rightarrow> bool" where
  "has_valid_centroids class_to_centroid = list_ex (\<lambda>(c, centroid). centroid \<noteq> None) class_to_centroid"

definition simple_hsv_heuristic :: "image \<Rightarrow> string \<times> real" where
  "simple_hsv_heuristic img =
     (if \<not> decodable img then (''healthy'', 0.5)
      else
        let sat = mean_saturation img; val = mean_value img in
        if sat < 60 \<and> val < 110 then
          (''unhealthy'', if sat < 45 \<or> val < 90 then 0.8 else 0.7)
        else if sat > 120 \<and> val > 160 then (''healthy'', 0.75)
        else (''healthy'', 0.6))"

text \<open>\<open>np.linalg.norm(feature - centroid)\<close>: the Euclidean distance.\<close>

definition norm_diff :: "vec \<Rightarrow> vec \<Rightarrow> real" where
  "norm_diff feature centroid = sqrt (\<Sum>(a, b)\<leftarrow>zip feature centroid. (a - b)\<^sup>2)"

text \<open>
  The loop of \<open>_nearest_centroid\<close> over the dictionary's items. \<open>best_dist\<close> starts as
  \<open>float('inf')\<close>, which is \<open>None\<close> here; a finite distance is \<open>Some d\<close>.
\<close>

fun nearest_loop ::
  "vec \<Rightarrow> centroids \<Rightarrow> string option \<times> real option \<Rightarrow> string option \<times> real option" where
  "nearest_loop feature [] acc = acc"
| "nearest_loop feature ((class_name, None) # rest) acc = nearest_loop feature rest acc"
| "nearest_loop feature ((class_name, Some centroid) # rest) (best_class, best_dist) =
     (let dist = norm_diff feature centroid in
      if (case best_dist of None \<Rightarrow> True | Some d \<Rightarrow> dist < d)
      then nearest_loop feature rest (Some class_name, Some dist)
      else nearest_loop feature rest (best_class, best_dist))"

definition nearest_centroid :: "vec \<Rightarrow> centroids \<Rightarrow> error + (string \<times> real)" where
  "nearest_centroid feature class_to_centroid =
     (let (best_class, best_dist) = nearest_loop feature class_to_centroid (None, None);
          confidence =
            (case best_dist of
               Some d \<Rightarrow> max 0.05 (min 0.99 (exp (- d / 100.0)))
             | None \<Rightarrow> 0.5)
      in case best_class of
           Some c \<Rightarrow>
             if c \<noteq> [] then Inr (c, confidence)
             else (case class_to_centroid of
                     [] \<Rightarrow> Inl IndexError
                   | (k, _) # _ \<Rightarrow> Inr (k, confidence))
         | None \<Rightarrow>
             (case class_to_centroid of
                [] \<Rightarrow> Inl IndexError
              | (k, _) # _ \<Rightarrow> Inr (k, confidence)))"

definition predict_nail ::
  "(string \<Rightarrow> image list) \<Rightarrow> model_state \<Rightarrow> image \<Rightarrow> (error + (string \<times> real)) \<times> model_state" where
  "predict_nail dataset st0 img =
     (let st = ensure_initialized dataset st0 in
      case nail_class_to_centroid st of
        None \<Rightarrow> (Inl AttributeError, st)
      | Some cents \<Rightarrow>
          if use_heuristic_fallback st \<or> \<not> has_valid_centroids cents then
            (let (label, conf) = simple_hsv_heuristic img in
             (Inr (if label = ''unhealthy'' then ''unhealthy_nails'' else ''healthy_nails'', conf), st))
          else if \<not> decodable img then (Inl DecodeError, st)
          else (nearest_centroid (vgg16_feature img) cents, st))"

definition predict_skin ::
  "(string \<Rightarrow> image list) \<Rightarrow> model_state \<Rightarrow> image \<Rightarrow> (error + (string \<times> real)) \<times> model_state" where
  "predict_skin dataset st0 img =
     (let st = ensure_initialized dataset st0 in
      case skin_class_to_centroid st of
        None \<Rightarrow> (Inl AttributeError, st)
      | Some cents \<Rightarrow>
          if use_heuristic_fallback st \<or> \<not> has_valid_centroids cents then
            (let (label, conf) = simple_hsv_heuristic img in
             (Inr (if label = ''unhealthy'' then ''unhealthy_skin'' else ''healthy_skin'', conf), st))
          else if \<not> decodable img then (Inl DecodeError, st)
          else (nearest_centroid (resnet_feature img) cents, st))"

section \<open>A reference collection with skin images only\<close>

text \<open>
  A concrete process state for the classifier: one reference image per skin class, with
  one-dimensional features 0 (healthy) and 10 (unhealthy), and no nail image at all.
\<close>

definition reference_image :: "real \<Rightarrow> image" where
  "reference_image x =
     \<lparr>decodable = True, vgg16_feature = [x], resnet_feature = [x],
      mean_saturation = 200, mean_value = 200\<rparr>"

definition skin_only_dataset :: "string \<Rightarrow> image list" where
  "skin_only_dataset class_name =
     (if class_name = ''healthy_skin'' then [reference_image 0]
      else if class_name = ''unhealthy_skin'' then [reference_image 10]
      else [])"

section \<open>Auxiliary notions for the proofs about the estimator\<close>

text \<open>
  The numeric labels of the nine bands, as \<open>float(percentiles[i][1:])\<close> yields them, and
  the linear segment the estimator evaluates between band \<open>i\<close> and band \<open>i + 1\<close>.
\<close>

definition band_labels :: "real list" where
  "band_labels = [3, 5, 10, 25, 50, 75, 90, 95, 97]"

definition segment :: "real list \<Rightarrow> nat \<Rightarrow> real \<Rightarrow> real" where
  "segment vs i b =
     band_labels ! i + (band_labels ! (i + 1) - band_labels ! i) * (b - vs ! i) / (vs ! (i + 1) - vs ! i)"

section \<open>The risk scorer: bounds, the golden case and the breakdown\<close>

lemma py_int_nonneg: "0 \<le> x \<Longrightarrow> 0 \<le> py_int x"
  by (simp add: py_int_def)

lemma risk_score_unfold:
  "risk_score (calculate_risk_score p z s n sc nc a) =
     min 100
       (if a < 5 then
          py_int (real_of_int
            (0 + (if p < 5 then 40 else if p < 10 then 30 else if p < 25 then 20
                  else if p \<ge> 97 then 35 else if p \<ge> 85 then 25 else 0)
               + (if \<bar>z\<bar> > 2.0 then 20 else if \<bar>z\<bar> > 1.5 then 15
                  else if \<bar>z\<bar> > 1.0 then 10 else 0)
               + (if py_in ''unhealthy'' s then py_int (20 * (1 - sc)) else py_int (5 * (1 - sc)))
               + (if py_in ''unhealthy'' n then py_int (20 * (1 - nc)) else py_int (5 * (1 - nc))))
            * 1.2)
        else if a > 15 then
          py_int (real_of_int
            (0 + (if p < 5 then 40 else if p < 10 then 30 else if p < 25 then 20
                  else if p \<ge> 97 then 35 else if p \<ge> 85 then 25 else 0)
               + (if \<bar>z\<bar> > 2.0 then 20 else if \<bar>z\<bar> > 1.5 then 15
                  else if \<bar>z\<bar> > 1.0 then 10 else 0)
               + (if py_in ''unhealthy'' s then py_int (20 * (1 - sc)) else py_int (5 * (1 - sc)))
               + (if py_in ''unhealthy'' n then py_int (20 * (1 - nc)) else py_int (5 * (1 - nc))))
            * 1.1)
        else
          0 + (if p < 5 then 40 else if p < 10 then 30 else if p < 25 then 20
               else if p \<ge> 97 then 35 else if p \<ge> 85 then 25 else 0)
            + (if \<bar>z\<bar> > 2.0 then 20 else if \<bar>z\<bar> > 1.5 then 15
               else if \<bar>z\<bar> > 1.0 then 10 else 0)
            + (if py_in ''unhealthy'' s then py_int (20 * (1 - sc)) else py_int (5 * (1 - sc)))
            + (if py_in ''unhealthy'' n then py_int (20 * (1 - nc)) else py_int (5 * (1 - nc))))"
  unfolding calculate_risk_score_def Let_def by (simp split del: if_split)

lemma risk_score_le_100:
  "risk_score (calculate_risk_score bmi_percentile bmi_z_score skin_health
      nail_health skin_confidence nail_confidence age_years) \<le> 100"
  unfolding risk_score_unfold by simp

lemma risk_score_nonneg:
  assumes "skin_confidence \<le> 1" and "nail_confidence \<le> 1"
  shows "0 \<le> risk_score (calculate_risk_score bmi_percentile bmi_z_score skin_health
             nail_health skin_confidence nail_confidence age_years)"
proof -
  define b :: int where
    "b = (if bmi_percentile < 5 then 40 else if bmi_percentile < 10 then 30
          else if bmi_percentile < 25 then 20 else if bmi_percentile \<ge> 97 then 35
          else if bmi_percentile \<ge> 85 then 25 else 0)"
  define zt :: int where
    "zt = (if \<bar>bmi_z_score\<bar> > 2.0 then 20 else if \<bar>bmi_z_score\<bar> > 1.5 then 15
           else if \<bar>bmi_z_score\<bar> > 1.0 then 10 else 0)"
  define st where
    "st = (if py_in ''unhealthy'' skin_health then py_int (20 * (1 - skin_confidence))
           else py_int (5 * (1 - skin_confidence)))"
  define nt where
    "nt = (if py_in ''unhealthy'' nail_health then py_int (20 * (1 - nail_confidence))
           else py_int (5 * (1 - nail_confidence)))"
  have b0: "0 \<le> b" by (simp add: b_def)
  have z0: "0 \<le> zt" by (simp add: zt_def)
  have s0: "0 \<le> st" using assms(1) by (simp add: st_def py_int_nonneg)
  have n0: "0 \<le> nt" using assms(2) by (simp add: nt_def py_int_nonneg)
  have t0: "0 \<le> 0 + b + zt + st + nt" using b0 z0 s0 n0 by linarith
  have eq: "risk_score (calculate_risk_score bmi_percentile bmi_z_score skin_health
               nail_health skin_confidence nail_confidence age_years) =
     min 100 (if age_years < 5 then py_int (real_of_int (0 + b + zt + st + nt) * 1.2)
              else if age_years > 15 then py_int (real_of_int (0 + b + zt + st + nt) * 1.1)
              else 0 + b + zt + st + nt)"
    unfolding risk_score_unfold b_def zt_def st_def nt_def by (rule refl)
  show ?thesis unfolding eq using t0 by (simp add: py_int_nonneg)
qed

text \<open>
  Claim C1, as amended. The score is capped from above only (\<open>min(100, risk_score)\<close>):
  it is at most 100 for every input, with no condition on the confidences, and it is
  at least 0 whenever neither confidence exceeds 1, so that no image term is negative.
  For such inputs, which include the extremes percentile 0, z-score 10 and
  confidences 0, the score lies in \<open>[0, 100]\<close>.
\<close>

theorem risk_score_in_range:
  "risk_score (calculate_risk_score bmi_percentile bmi_z_score skin_health
      nail_health skin_confidence nail_confidence age_years) \<le> 100
   \<and> (skin_confidence \<le> 1 \<and> nail_confidence \<le> 1 \<longrightarrow>
        0 \<le> risk_score (calculate_risk_score bmi_percentile bmi_z_score skin_health
               nail_health skin_confidence nail_confidence age_years))"
  using risk_score_le_100 risk_score_nonneg by blast

theorem risk_score_in_range_witness:
  "risk_score (calculate_risk_score 0 10 ''unhealthy_skin'' ''unhealthy_nails'' 0 0 3) \<le> 100
   \<and> 0 \<le> risk_score (calculate_risk_score 0 10 ''unhealthy_skin'' ''unhealthy_nails'' 0 0 3)"
  using risk_score_in_range [where bmi_percentile = 0 and bmi_z_score = 10
      and skin_health = "''unhealthy_skin''" and nail_health = "''unhealthy_nails''"
      and skin_confidence = 0 and nail_confidence = 0 and age_years = 3]
  by simp

text \<open>
  Claim C1 as stated fails: with both confidences 5 and no other risk the two image
  terms are \<open>int(5 * (1 - 5)) = -20\<close> each, and nothing raises the total back to 0.
\<close>

theorem risk_score_negative_counterexample:
  "risk_score (calculate_risk_score 50 0 ''healthy_skin'' ''healthy_nails'' 5 5 8) = - 40"
  by (simp add: calculate_risk_score_def py_int_def)

text \<open>
  Claim C7: the golden regression case. Percentile 15 gives 20 points, \<open>|z| = 1.2\<close> gives
  10, the unhealthy skin call at confidence 0.7 gives \<open>int(20 * 0.3)\<close>, the healthy nail
  call at confidence 0.8 gives \<open>int(5 * 0.2)\<close>, age 8 leaves the total alone, and the
  total is below 40 and not below 20: the level is Medium.
\<close>

theorem golden_case_is_medium:
  "risk_level (calculate_risk_score 15.0 (- 1.2) ''unhealthy_skin'' ''healthy_nails'' 0.7 0.8 8.0)
     = ''Medium''"
  by (simp add: calculate_risk_score_def py_int_def)

text \<open>
  Claim C9: every breakdown field is the final capped total clipped at the factor's
  ceiling, whatever the factor itself contributed.
\<close>

theorem breakdown_is_clipped_total:
  "bmi_risk (calculate_risk_score p z s n sc nc a)
     = min 40 (risk_score (calculate_risk_score p z s n sc nc a))
   \<and> z_score_risk (calculate_risk_score p z s n sc nc a)
     = min 20 (risk_score (calculate_risk_score p z s n sc nc a))
   \<and> skin_risk (calculate_risk_score p z s n sc nc a)
     = min 20 (risk_score (calculate_risk_score p z s n sc nc a))
   \<and> nail_risk (calculate_risk_score p z s n sc nc a)
     = min 20 (risk_score (calculate_risk_score p z s n sc nc a))"
  unfolding calculate_risk_score_def Let_def by (simp split del: if_split)

section \<open>The reference table: every row is a valid row of band thresholds\<close>

lemma argmin_from_bound:
  "best_i < i \<Longrightarrow> argmin_from i best_i best xs < i + length xs"
proof (induction xs arbitrary: i best_i best)
  case Nil
  then show ?case by simp
next
  case (Cons x xs)
  have a: "argmin_from (Suc i) i x xs < Suc i + length xs"
    using Cons.IH [of i "Suc i" x] by simp
  have b: "argmin_from (Suc i) best_i best xs < Suc i + length xs"
    using Cons.IH [of best_i "Suc i" best] Cons.prems by simp
  show ?case using a b by simp
qed

lemma np_argmin_bound: "xs \<noteq> [] \<Longrightarrow> np_argmin xs < length xs"
  using argmin_from_bound [of 0 1] by (auto simp: np_argmin_def split: list.splits)

lemma age_index_bound: "ages \<noteq> [] \<Longrightarrow> age_index ages a < length ages"
  using np_argmin_bound [of "map (\<lambda>x. \<bar>x - a\<bar>) ages"] by (simp add: age_index_def)

lemma lt18_cases:
  "idx < 18 \<Longrightarrow> idx \<in> {0, 1, 2, 3, 4, 5, 6, 7, 8, 9, 10, 11, 12, 13, 14, 15, 16, 17::nat}"
  by simp arith


lemma column_at_via_get:
  "map (column_at gd idx) ps =
     map (\<lambda>r. case r of Inl e \<Rightarrow> Inl e
                | Inr col \<Rightarrow> if idx < length col then Inr (col ! idx) else Inl IndexError)
         (map (dict_get gd) ps)"
  by (simp add: column_at_def)

lemma male_columns:
  "map (dict_get male_data) percentiles = map (\<lambda>kv. Inr (snd kv)) (tl male_data)"
  by (simp add: dict_get_def male_data_def percentiles_def)

lemma female_columns:
  "map (dict_get female_data) percentiles = map (\<lambda>kv. Inr (snd kv)) (tl female_data)"
  by (simp add: dict_get_def female_data_def percentiles_def)

lemma male_row_at:
  assumes "idx < 18"
  shows "bmi_values_at male_data idx = Inr (map (\<lambda>kv. snd kv ! idx) (tl male_data))"
  unfolding bmi_values_at_def column_at_via_get male_columns
  using assms by (simp add: male_data_def)

lemma female_row_at:
  assumes "idx < 18"
  shows "bmi_values_at female_data idx = Inr (map (\<lambda>kv. snd kv ! idx) (tl female_data))"
  unfolding bmi_values_at_def column_at_via_get female_columns
  using assms by (simp add: female_data_def)

lemma male_rows_ok:
  assumes "idx < 18"
  shows "band_thresholds_ok (map (\<lambda>kv. snd kv ! idx) (tl male_data))"
  using lt18_cases [OF assms]
  by (elim insertE emptyE; simp add: male_data_def band_thresholds_ok_def)

lemma female_rows_ok:
  assumes "idx < 18"
  shows "band_thresholds_ok (map (\<lambda>kv. snd kv ! idx) (tl female_data))"
  using lt18_cases [OF assms]
  by (elim insertE emptyE; simp add: female_data_def band_thresholds_ok_def)

section \<open>The interpolation is monotone and stays between the band labels\<close>

lemma lt9_cases: "i < 9 \<Longrightarrow> i \<in> {0, 1, 2, 3, 4, 5, 6, 7, 8::nat}"
  by simp arith

lemma label_value:
  assumes "i < 9"
  shows "py_float (drop 1 (percentiles ! i)) = band_labels ! i"
  using lt9_cases [OF assms]
  by (elim insertE emptyE; simp add: py_float_def digit_val_def percentiles_def band_labels_def)

lemma band_labels_mono:
  assumes "i \<le> j" "j < 9"
  shows "band_labels ! i \<le> band_labels ! j"
proof -
  have s: "sorted band_labels" by (simp add: band_labels_def)
  have len: "length band_labels = 9" by (simp add: band_labels_def)
  show ?thesis using sorted_nth_mono [OF s, of i j] assms len by simp
qed

lemma band_labels_bounds:
  assumes "i < 9"
  shows "3 \<le> band_labels ! i" "band_labels ! i \<le> 97"
  using band_labels_mono [of 0 i] band_labels_mono [of i 8] assms
  by (simp_all add: band_labels_def)

lemma row_nth_less:
  assumes "band_thresholds_ok vs" "i < j" "j < 9"
  shows "vs ! i < vs ! j"
  using assms by (simp add: band_thresholds_ok_def sorted_wrt_nth_less)

lemma row_last: "band_thresholds_ok vs \<Longrightarrow> last vs = vs ! 8"
proof -
  assume "band_thresholds_ok vs"
  then have len: "length vs = 9" by (simp add: band_thresholds_ok_def)
  then have "vs \<noteq> []" by auto
  then have "last vs = vs ! (length vs - 1)" by (rule last_conv_nth)
  then show ?thesis using len by simp
qed

lemma bracket_exists:
  assumes ok: "band_thresholds_ok vs" and lo: "vs ! 0 < b" and hi: "b < vs ! 8"
  shows "\<exists>i<8. vs ! i \<le> b \<and> b \<le> vs ! (i + 1)"
proof -
  define j where "j = (LEAST j. b \<le> vs ! j)"
  have ex: "b \<le> vs ! 8" using hi by simp
  have j1: "b \<le> vs ! j" unfolding j_def using ex by (rule LeastI)
  have j2: "j \<le> 8" unfolding j_def using ex by (rule Least_le)
  have j3: "j \<noteq> 0" using j1 lo by (auto intro: ccontr)
  then obtain i where i: "j = Suc i" by (cases j) auto
  have "\<not> b \<le> vs ! i"
    using not_less_Least [of i "\<lambda>j. b \<le> vs ! j"] i unfolding j_def by simp
  then show ?thesis using j1 j2 i by (intro exI [of _ i]) auto
qed

lemma segment_bounds:
  assumes ok: "band_thresholds_ok vs" and i: "i < 8" and lo: "vs ! i \<le> b" and hi: "b \<le> vs ! (i + 1)"
  shows "band_labels ! i \<le> segment vs i b" "segment vs i b \<le> band_labels ! (i + 1)"
proof -
  have d: "0 < vs ! (i + 1) - vs ! i" using row_nth_less [OF ok, of i "i + 1"] i by simp
  have c: "0 \<le> band_labels ! (i + 1) - band_labels ! i"
    using band_labels_mono [of i "i + 1"] i by simp
  have t0: "0 \<le> (b - vs ! i) / (vs ! (i + 1) - vs ! i)" using d lo by simp
  have t1: "(b - vs ! i) / (vs ! (i + 1) - vs ! i) \<le> 1" using d hi by simp
  have eq: "segment vs i b =
     band_labels ! i + (band_labels ! (i + 1) - band_labels ! i) * ((b - vs ! i) / (vs ! (i + 1) - vs ! i))"
    by (simp add: segment_def)
  have m: "0 \<le> (band_labels ! (i + 1) - band_labels ! i) * ((b - vs ! i) / (vs ! (i + 1) - vs ! i))"
    using c t0 by (rule mult_nonneg_nonneg)
  show "band_labels ! i \<le> segment vs i b"
    unfolding eq using m by linarith
  have "(band_labels ! (i + 1) - band_labels ! i) * ((b - vs ! i) / (vs ! (i + 1) - vs ! i))
      \<le> band_labels ! (i + 1) - band_labels ! i"
    using t1 c by (rule mult_left_le)
  then show "segment vs i b \<le> band_labels ! (i + 1)" unfolding eq by linarith
qed

lemma segment_mono:
  assumes ok: "band_thresholds_ok vs" and i: "i < 8" and le: "b1 \<le> b2"
  shows "segment vs i b1 \<le> segment vs i b2"
proof -
  have d: "0 < vs ! (i + 1) - vs ! i" using row_nth_less [OF ok, of i "i + 1"] i by simp
  have c: "0 \<le> band_labels ! (i + 1) - band_labels ! i"
    using band_labels_mono [of i "i + 1"] i by simp
  have "(b1 - vs ! i) / (vs ! (i + 1) - vs ! i) \<le> (b2 - vs ! i) / (vs ! (i + 1) - vs ! i)"
    using d le by (simp add: divide_right_mono)
  then have "(band_labels ! (i + 1) - band_labels ! i) * ((b1 - vs ! i) / (vs ! (i + 1) - vs ! i))
      \<le> (band_labels ! (i + 1) - band_labels ! i) * ((b2 - vs ! i) / (vs ! (i + 1) - vs ! i))"
    using c by (rule mult_left_mono)
  moreover have "\<And>x. segment vs i x =
     band_labels ! i + (band_labels ! (i + 1) - band_labels ! i) * ((x - vs ! i) / (vs ! (i + 1) - vs ! i))"
    by (simp add: segment_def)
  ultimately show ?thesis by simp
qed

lemma interpolate_low:
  assumes "b \<le> vs ! 0"
  shows "interpolate_percentile b vs = 3 * (b / vs ! 0)"
  using assms by (simp add: interpolate_percentile_def)

lemma interpolate_high:
  assumes "band_thresholds_ok vs" "vs ! 0 < b" "vs ! 8 \<le> b"
  shows "interpolate_percentile b vs = 97 + 3 * (b - vs ! 8) / vs ! 8"
  using assms by (simp add: interpolate_percentile_def row_last)

lemma interpolate_mid:
  assumes ok: "band_thresholds_ok vs" and lo: "vs ! 0 < b" and hi: "b < vs ! 8"
  shows "\<exists>i<8. vs ! i \<le> b \<and> b \<le> vs ! (i + 1) \<and> interpolate_percentile b vs = segment vs i b"
proof -
  let ?P = "\<lambda>i. vs ! i \<le> b \<and> b \<le> vs ! (i + 1)"
  have len: "length vs = 9" using ok by (simp add: band_thresholds_ok_def)
  obtain k where k: "k < 8" "?P k" using bracket_exists [OF ok lo hi] by blast
  have "find ?P [0 ..< 8] \<noteq> None"
    using k by (auto simp: find_None_iff)
  then obtain i where f: "find ?P [0 ..< 8] = Some i" by auto
  then have i: "i < 8" "?P i"
    by (auto simp: find_Some_iff)
  have l1: "py_float (drop 1 (percentiles ! i)) = band_labels ! i"
    using label_value [of i] i(1) by simp
  have l2: "py_float (drop 1 (percentiles ! (i + 1))) = band_labels ! (i + 1)"
    using label_value [of "i + 1"] i(1) by simp
  have "interpolate_percentile b vs = segment vs i b"
    using lo hi f i(1) ok l1 l2
    by (simp add: interpolate_percentile_def row_last len segment_def Let_def)
  then show ?thesis using i by blast
qed

lemma interpolate_mono:
  assumes ok: "band_thresholds_ok vs" and le: "b1 \<le> b2"
  shows "interpolate_percentile b1 vs \<le> interpolate_percentile b2 vs"
proof -
  have v0: "0 < vs ! 0" using ok by (simp add: band_thresholds_ok_def)
  have v08: "vs ! 0 < vs ! 8" using row_nth_less [OF ok, of 0 8] by simp
  have v8: "0 < vs ! 8" using v0 v08 by linarith
  consider (low) "b2 \<le> vs ! 0"
    | (low_mid) "b1 \<le> vs ! 0" "vs ! 0 < b2" "b2 < vs ! 8"
    | (low_high) "b1 \<le> vs ! 0" "vs ! 8 \<le> b2"
    | (mid) "vs ! 0 < b1" "b2 < vs ! 8"
    | (mid_high) "vs ! 0 < b1" "b1 < vs ! 8" "vs ! 8 \<le> b2"
    | (high) "vs ! 8 \<le> b1"
    using le v08 by linarith
  then show ?thesis
  proof cases
    case low
    then have b1: "b1 \<le> vs ! 0" using le by linarith
    have "b1 / vs ! 0 \<le> b2 / vs ! 0" using le v0 by (simp add: divide_right_mono)
    then show ?thesis using low b1 by (simp add: interpolate_low)
  next
    case low_mid
    obtain i where i: "i < 8" "vs ! i \<le> b2" "b2 \<le> vs ! (i + 1)"
      "interpolate_percentile b2 vs = segment vs i b2"
      using interpolate_mid [OF ok low_mid(2,3)] by blast
    have "b1 / vs ! 0 \<le> 1" using low_mid(1) v0 by simp
    then have "interpolate_percentile b1 vs \<le> 3"
      using low_mid(1) by (simp add: interpolate_low)
    moreover have "3 \<le> band_labels ! i" using band_labels_bounds(1) [of i] i(1) by simp
    moreover have "band_labels ! i \<le> segment vs i b2" using segment_bounds(1) [OF ok i(1,2,3)] .
    ultimately show ?thesis using i(4) by linarith
  next
    case low_high
    have "b1 / vs ! 0 \<le> 1" using low_high(1) v0 by simp
    then have a: "interpolate_percentile b1 vs \<le> 3"
      using low_high(1) by (simp add: interpolate_low)
    have "vs ! 0 < b2" using low_high(2) v08 by linarith
    then have e: "interpolate_percentile b2 vs = 97 + 3 * (b2 - vs ! 8) / vs ! 8"
      using interpolate_high [OF ok _ low_high(2)] by simp
    have "0 \<le> 3 * (b2 - vs ! 8) / vs ! 8" using low_high(2) v8 by simp
    then show ?thesis using a e by linarith
  next
    case mid
    have m1: "b1 < vs ! 8" using mid(2) le by linarith
    have m2: "vs ! 0 < b2" using mid(1) le by linarith
    obtain i where i: "i < 8" "vs ! i \<le> b1" "b1 \<le> vs ! (i + 1)"
      "interpolate_percentile b1 vs = segment vs i b1"
      using interpolate_mid [OF ok mid(1) m1] by blast
    obtain j where j: "j < 8" "vs ! j \<le> b2" "b2 \<le> vs ! (j + 1)"
      "interpolate_percentile b2 vs = segment vs j b2"
      using interpolate_mid [OF ok m2 mid(2)] by blast
    consider (eq) "i = j" | (lt) "i < j" | (gt) "j < i" by linarith
    then show ?thesis
    proof cases
      case eq
      then show ?thesis using segment_mono [OF ok i(1) le] i(4) j(4) by simp
    next
      case lt
      have "segment vs i b1 \<le> band_labels ! (i + 1)" using segment_bounds(2) [OF ok i(1,2,3)] .
      moreover have "band_labels ! (i + 1) \<le> band_labels ! j"
        using band_labels_mono [of "i + 1" j] lt j(1) by simp
      moreover have "band_labels ! j \<le> segment vs j b2" using segment_bounds(1) [OF ok j(1,2,3)] .
      ultimately show ?thesis using i(4) j(4) by linarith
    next
      case gt
      have "vs ! (j + 1) \<le> vs ! i"
      proof (cases "j + 1 = i")
        case True
        then show ?thesis by simp
      next
        case False
        then have "j + 1 < i" using gt by linarith
        then show ?thesis using row_nth_less [OF ok, of "j + 1" i] i(1) by simp
      qed
      then have "b1 = b2" using i(2) j(3) le by linarith
      then show ?thesis by simp
    qed
  next
    case mid_high
    obtain i where i: "i < 8" "vs ! i \<le> b1" "b1 \<le> vs ! (i + 1)"
      "interpolate_percentile b1 vs = segment vs i b1"
      using interpolate_mid [OF ok mid_high(1,2)] by blast
    have "segment vs i b1 \<le> band_labels ! (i + 1)" using segment_bounds(2) [OF ok i(1,2,3)] .
    moreover have "band_labels ! (i + 1) \<le> 97" using band_labels_bounds(2) [of "i + 1"] i(1) by simp
    moreover have "vs ! 0 < b2" using mid_high(1) le by linarith
    then have e: "interpolate_percentile b2 vs = 97 + 3 * (b2 - vs ! 8) / vs ! 8"
      using interpolate_high [OF ok _ mid_high(3)] by simp
    moreover have "0 \<le> 3 * (b2 - vs ! 8) / vs ! 8" using mid_high(3) v8 by simp
    ultimately show ?thesis using i(4) by linarith
  next
    case high
    have h2: "vs ! 8 \<le> b2" using high le by linarith
    have e1: "interpolate_percentile b1 vs = 97 + 3 * (b1 - vs ! 8) / vs ! 8"
      using interpolate_high [OF ok _ high] high v08 by simp
    have e2: "interpolate_percentile b2 vs = 97 + 3 * (b2 - vs ! 8) / vs ! 8"
      using interpolate_high [OF ok _ h2] h2 v08 by simp
    have "3 * (b1 - vs ! 8) / vs ! 8 \<le> 3 * (b2 - vs ! 8) / vs ! 8"
      using le v8 by (simp add: divide_right_mono)
    then show ?thesis using e1 e2 by linarith
  qed
qed

lemma interpolate_range:
  assumes ok: "band_thresholds_ok vs" and b0: "0 \<le> b" and b2: "b \<le> 2 * vs ! 8"
  shows "0 \<le> interpolate_percentile b vs \<and> interpolate_percentile b vs \<le> 100"
proof -
  have v0: "0 < vs ! 0" using ok by (simp add: band_thresholds_ok_def)
  have v08: "vs ! 0 < vs ! 8" using row_nth_less [OF ok, of 0 8] by simp
  have v8: "0 < vs ! 8" using v0 v08 by linarith
  have z: "interpolate_percentile 0 vs = 0" using v0 by (simp add: interpolate_low)
  have lo: "interpolate_percentile 0 vs \<le> interpolate_percentile b vs"
    using interpolate_mono [OF ok b0] .
  have t: "interpolate_percentile (2 * vs ! 8) vs = 100"
    using interpolate_high [OF ok, of "2 * vs ! 8"] v8 v08 by simp
  have hi: "interpolate_percentile b vs \<le> interpolate_percentile (2 * vs ! 8) vs"
    using interpolate_mono [OF ok b2] .
  show ?thesis using z lo t hi by linarith
qed

lemma interpolate_above_100:
  assumes ok: "band_thresholds_ok vs" and b2: "2 * vs ! 8 < b"
  shows "100 < interpolate_percentile b vs"
proof -
  have v0: "0 < vs ! 0" using ok by (simp add: band_thresholds_ok_def)
  have v08: "vs ! 0 < vs ! 8" using row_nth_less [OF ok, of 0 8] by simp
  have v8: "0 < vs ! 8" using v0 v08 by linarith
  have e: "interpolate_percentile b vs = 97 + 3 * (b - vs ! 8) / vs ! 8"
    using interpolate_high [OF ok, of b] v8 v08 b2 by simp
  have "vs ! 8 < b - vs ! 8" using b2 by simp
  then have "3 * vs ! 8 < 3 * (b - vs ! 8)" by simp
  then have "3 < 3 * (b - vs ! 8) / vs ! 8" using v8 by (simp add: pos_less_divide_eq)
  then show ?thesis using e by linarith
qed

section \<open>The estimator: when it returns and when it raises\<close>

lemma male_ages: "dict_get male_data ''ages'' = Inr (snd (hd male_data))"
  by (simp add: dict_get_def male_data_def)

lemma female_ages: "dict_get female_data ''ages'' = Inr (snd (hd female_data))"
  by (simp add: dict_get_def female_data_def)

lemma male_ages_length: "length (snd (hd male_data)) = 18"
  by (simp add: male_data_def)

lemma female_ages_length: "length (snd (hd female_data)) = 18"
  by (simp add: female_data_def)

lemma reference_male: "dict_get BMI_REFERENCE_DATA ''male'' = Inr male_data"
  by (simp add: dict_get_def BMI_REFERENCE_DATA_def)

lemma reference_female: "dict_get BMI_REFERENCE_DATA ''female'' = Inr female_data"
  by (simp add: dict_get_def BMI_REFERENCE_DATA_def)

lemma male_p97_floor:
  assumes "idx < 18"
  shows "17.8 \<le> map (\<lambda>kv. snd kv ! idx) (tl male_data) ! 8"
  using lt18_cases [OF assms]
  by (elim insertE emptyE; simp add: male_data_def)

lemma female_p97_floor:
  assumes "idx < 18"
  shows "17.8 \<le> map (\<lambda>kv. snd kv ! idx) (tl female_data) ! 8"
  using lt18_cases [OF assms]
  by (elim insertE emptyE; simp add: female_data_def)

lemma percentile_row:
  assumes g: "lower gender \<in> set [''male'', ''female'']" and a: "2 \<le> age_years" "age_years \<le> 19"
  shows "\<exists>row. band_thresholds_ok row \<and> 17.8 \<le> row ! 8 \<and>
           (\<forall>bmi. calculate_bmi_percentile age_years bmi gender = Inr (interpolate_percentile bmi row))"
proof -
  consider (m) "lower gender = ''male''" | (f) "lower gender = ''female''" using g by auto
  then show ?thesis
  proof cases
    case m
    define idx where "idx = age_index (snd (hd male_data)) age_years"
    have "snd (hd male_data) \<noteq> []" using male_ages_length by auto
    then have i: "idx < 18" using age_index_bound [of "snd (hd male_data)" age_years] male_ages_length
      by (simp add: idx_def)
    have "\<forall>bmi. calculate_bmi_percentile age_years bmi gender =
        Inr (interpolate_percentile bmi (map (\<lambda>kv. snd kv ! idx) (tl male_data)))"
      using a m male_row_at [OF i]
      by (simp add: calculate_bmi_percentile_def reference_male male_ages idx_def)
    then show ?thesis using male_rows_ok [OF i] male_p97_floor [OF i] by blast
  next
    case f
    define idx where "idx = age_index (snd (hd female_data)) age_years"
    have "snd (hd female_data) \<noteq> []" using female_ages_length by auto
    then have i: "idx < 18" using age_index_bound [of "snd (hd female_data)" age_years] female_ages_length
      by (simp add: idx_def)
    have "\<forall>bmi. calculate_bmi_percentile age_years bmi gender =
        Inr (interpolate_percentile bmi (map (\<lambda>kv. snd kv ! idx) (tl female_data)))"
      using a f female_row_at [OF i]
      by (simp add: calculate_bmi_percentile_def reference_female female_ages idx_def)
    then show ?thesis using female_rows_ok [OF i] female_p97_floor [OF i] by blast
  qed
qed

lemma np_percentile_defined:
  assumes "samples \<noteq> []" "0 \<le> q" "q \<le> 100"
  shows "\<exists>v. np_percentile samples q = Inr v"
  using assms by (simp add: np_percentile_def Let_def)

lemma z_score_defined:
  assumes "samples \<noteq> []" "0 \<le> p" "p \<le> 100"
  shows "\<exists>z. z_score_of samples p = Inr z"
proof (cases "p \<le> 50")
  case True
  obtain v where "np_percentile samples p = Inr v"
    using np_percentile_defined [OF assms] by blast
  then show ?thesis using True by (simp add: z_score_of_def)
next
  case False
  have "0 \<le> 100 - p" "100 - p \<le> 100" using assms by simp_all
  then obtain v where "np_percentile samples (100 - p) = Inr v"
    using np_percentile_defined [OF assms(1)] by blast
  then show ?thesis using False by (simp add: z_score_of_def)
qed

lemma z_score_out_of_range:
  assumes "p < 0 \<or> 100 < p"
  shows "z_score_of samples p = Inl ValueError_percentile_range"
  using assms by (auto simp: z_score_of_def np_percentile_def)

lemma np_percentile_replicate:
  assumes n: "0 < n" and q: "0 \<le> q" "q \<le> 100"
  shows "np_percentile (replicate n c) q = Inr c"
proof -
  have s: "sort (replicate n c) = replicate n c"
    by (rule sorted_sort_id) (simp add: sorted_replicate)
  have ne: "replicate n c \<noteq> []" using n by simp
  define k where "k = nat \<lfloor>q / 100 * real (n - 1)\<rfloor>"
  have "q / 100 * real (n - 1) \<le> 1 * real (n - 1)"
    using q by (intro mult_right_mono) simp_all
  then have "\<lfloor>q / 100 * real (n - 1)\<rfloor> \<le> int (n - 1)" by (simp add: floor_le_iff)
  then have k: "k < n" using n by (simp add: k_def)
  have k2: "min (k + 1) (n - 1) < n" using n by simp
  have r: "replicate n c ! k + g * (replicate n c ! min (k + 1) (n - 1) - replicate n c ! k) = c" for g
    using k k2 by simp
  have "np_percentile (replicate n c) q =
      Inr (replicate n c ! k + (q / 100 * real (n - 1) - real k)
             * (replicate n c ! min (k + 1) (n - 1) - replicate n c ! k))"
    using q ne unfolding np_percentile_def Let_def s k_def by simp
  then show ?thesis unfolding r .
qed

lemma lower_male: "lower ''male'' = ''male''"
  by (simp add: lower_def char_lower_def)

lemma lower_MALE: "lower ''MALE'' = ''male''"
  by (simp add: lower_def char_lower_def)

lemma lower_unknown: "lower ''unknown'' = ''unknown''"
  by (simp add: lower_def char_lower_def)

lemma male_age_index_8: "age_index (snd (hd male_data)) 8 = 6"
  by (simp add: age_index_def np_argmin_def male_data_def)

lemma male_row_8:
  "bmi_values_at male_data 6 = Inr [13.4, 13.8, 14.3, 15.1, 15.8, 16.6, 17.5, 18.3, 19.1]"
  using male_row_at [of 6] by (simp add: male_data_def)

lemma percentile_male_8:
  assumes "lower gender = ''male''"
  shows "calculate_bmi_percentile 8 bmi gender =
     Inr (interpolate_percentile bmi [13.4, 13.8, 14.3, 15.1, 15.8, 16.6, 17.5, 18.3, 19.1])"
  using assms
  by (simp add: calculate_bmi_percentile_def reference_male male_ages male_age_index_8 male_row_8)

lemma interpolate_16_5:
  "interpolate_percentile 16.5 [13.4, 13.8, 14.3, 15.1, 15.8, 16.6, 17.5, 18.3, 19.1] = 71.875"
  by (simp add: interpolate_percentile_def percentiles_def py_float_def digit_val_def)

lemma interpolate_14:
  "interpolate_percentile 14 [13.4, 13.8, 14.3, 15.1, 15.8, 16.6, 17.5, 18.3, 19.1] = 7"
  by (simp add: interpolate_percentile_def percentiles_def py_float_def digit_val_def)

lemma interpolate_40:
  "interpolate_percentile 40 [13.4, 13.8, 14.3, 15.1, 15.8, 16.6, 17.5, 18.3, 19.1] = 97 + 627 / 191"
  by (simp add: interpolate_percentile_def)

lemma estimate_male_8_16_5:
  assumes "lower gender = ''male''" "0 < n"
  shows "calculate_bmi_percentile_and_zscore (replicate n c) 8 16.5 gender = Inr (71.875, \<bar>c\<bar>)"
proof -
  have p: "calculate_bmi_percentile 8 16.5 gender = Inr 71.875"
    unfolding percentile_male_8 [OF assms(1)] interpolate_16_5 by (rule refl)
  have z: "z_score_of (replicate n c) 71.875 = Inr \<bar>c\<bar>"
    using np_percentile_replicate [of n "28.125" c] assms(2) by (simp add: z_score_of_def)
  show ?thesis
    unfolding calculate_bmi_percentile_and_zscore_def p sum.case z by (rule refl)
qed

lemma estimator_Inr_iff:
  "calculate_bmi_percentile_and_zscore samples age_years bmi gender = Inr (p, z) \<longleftrightarrow>
     calculate_bmi_percentile age_years bmi gender = Inr p \<and> z_score_of samples p = Inr z"
  by (auto simp: calculate_bmi_percentile_and_zscore_def split: sum.splits)

text \<open>
  Claim C6, as amended. The estimator rejects every input whose gender, lower-cased, is
  not \<open>male\<close> or \<open>female\<close>, and every input whose age lies outside \<open>[2, 19]\<close>: nothing is
  clamped into range. For every other input the percentile is computed; it lies in
  \<open>[0, 100]\<close> for every BMI in \<open>[0, 35.6]\<close>, and whenever it lies in \<open>[0, 100]\<close> the
  estimator returns the pair of the percentile and a z-score.
\<close>

theorem estimator_rejects_and_returns:
  "(lower gender \<notin> set [''male'', ''female''] \<longrightarrow>
      calculate_bmi_percentile_and_zscore samples age_years bmi gender = Inl ValueError_gender)
   \<and> (lower gender \<in> set [''male'', ''female''] \<and> (age_years < 2 \<or> 19 < age_years) \<longrightarrow>
      calculate_bmi_percentile_and_zscore samples age_years bmi gender = Inl ValueError_age)
   \<and> (lower gender \<in> set [''male'', ''female''] \<and> 2 \<le> age_years \<and> age_years \<le> 19
        \<and> samples \<noteq> [] \<longrightarrow>
      (\<exists>p. calculate_bmi_percentile age_years bmi gender = Inr p
         \<and> (0 \<le> bmi \<and> bmi \<le> 35.6 \<longrightarrow> 0 \<le> p \<and> p \<le> 100)
         \<and> (0 \<le> p \<and> p \<le> 100 \<longrightarrow>
              (\<exists>z. calculate_bmi_percentile_and_zscore samples age_years bmi gender = Inr (p, z)))))"
proof (intro conjI impI)
  assume "lower gender \<notin> set [''male'', ''female'']"
  then show "calculate_bmi_percentile_and_zscore samples age_years bmi gender = Inl ValueError_gender"
    by (simp add: calculate_bmi_percentile_and_zscore_def calculate_bmi_percentile_def)
next
  assume "lower gender \<in> set [''male'', ''female''] \<and> (age_years < 2 \<or> 19 < age_years)"
  then show "calculate_bmi_percentile_and_zscore samples age_years bmi gender = Inl ValueError_age"
    by (auto simp: calculate_bmi_percentile_and_zscore_def calculate_bmi_percentile_def)
next
  assume h: "lower gender \<in> set [''male'', ''female''] \<and> 2 \<le> age_years \<and> age_years \<le> 19
        \<and> samples \<noteq> []"
  then obtain row where row: "band_thresholds_ok row" "17.8 \<le> row ! 8"
      "\<And>b. calculate_bmi_percentile age_years b gender = Inr (interpolate_percentile b row)"
    using percentile_row [of gender age_years] by blast
  let ?p = "interpolate_percentile bmi row"
  have a: "calculate_bmi_percentile age_years bmi gender = Inr ?p" by (rule row(3))
  have b: "0 \<le> ?p \<and> ?p \<le> 100" if "0 \<le> bmi \<and> bmi \<le> 35.6"
  proof -
    have "bmi \<le> 2 * row ! 8" using that row(2) by simp
    then show ?thesis using interpolate_range [OF row(1)] that by blast
  qed
  have c: "\<exists>z. calculate_bmi_percentile_and_zscore samples age_years bmi gender = Inr (?p, z)"
    if pr: "0 \<le> ?p \<and> ?p \<le> 100"
  proof -
    obtain z where "z_score_of samples ?p = Inr z"
      using z_score_defined [of samples ?p] h pr by blast
    then show ?thesis using a by (auto simp: estimator_Inr_iff)
  qed
  show "\<exists>p. calculate_bmi_percentile age_years bmi gender = Inr p
         \<and> (0 \<le> bmi \<and> bmi \<le> 35.6 \<longrightarrow> 0 \<le> p \<and> p \<le> 100)
         \<and> (0 \<le> p \<and> p \<le> 100 \<longrightarrow>
              (\<exists>z. calculate_bmi_percentile_and_zscore samples age_years bmi gender = Inr (p, z)))"
    using a b c by blast
qed

theorem estimator_rejects_and_returns_witness:
  "calculate_bmi_percentile_and_zscore (replicate 10000 0) 8 16.5 ''unknown'' = Inl ValueError_gender
   \<and> calculate_bmi_percentile_and_zscore (replicate 10000 0) 1.5 16.5 ''male'' = Inl ValueError_age
   \<and> (\<exists>p z. calculate_bmi_percentile_and_zscore (replicate 10000 0) 8 16.5 ''male'' = Inr (p, z))"
proof -
  have 1: "calculate_bmi_percentile_and_zscore (replicate 10000 0) 8 16.5 ''unknown'' = Inl ValueError_gender"
    using estimator_rejects_and_returns [of "''unknown''" "replicate 10000 0" 8 "16.5"]
    by (simp add: lower_unknown)
  have 2: "calculate_bmi_percentile_and_zscore (replicate 10000 0) 1.5 16.5 ''male'' = Inl ValueError_age"
    using estimator_rejects_and_returns [of "''male''" "replicate 10000 0" "1.5" "16.5"]
    by (simp add: lower_male)
  have 3: "\<exists>p z. calculate_bmi_percentile_and_zscore (replicate 10000 0) 8 16.5 ''male'' = Inr (p, z)"
    using estimator_rejects_and_returns [of "''male''" "replicate 10000 0" 8 "16.5"]
    by (simp add: lower_male) blast
  show ?thesis using 1 2 3 by blast
qed


text \<open>
  Beyond twice the 97th-percentile threshold the percentile exceeds 100 and
  \<open>np.percentile\<close> is called with a negative argument, which raises.
\<close>

lemma estimator_raises_above_100:
  "calculate_bmi_percentile_and_zscore samples 8 40 ''male'' = Inl ValueError_percentile_range"
proof -
  have p: "calculate_bmi_percentile 8 40 ''male'' = Inr (97 + 627 / 191)"
    unfolding percentile_male_8 [OF lower_male] interpolate_40 by (rule refl)
  have z: "z_score_of samples (97 + 627 / 191) = Inl ValueError_percentile_range"
    by (rule z_score_out_of_range) simp
  show ?thesis unfolding calculate_bmi_percentile_and_zscore_def p sum.case z by simp
qed

text \<open>
  Claim C6 as stated fails twice. The gender is compared after \<open>gender.lower()\<close>, so
  the string \<open>MALE\<close>, which is not one of \<open>male\<close> and \<open>female\<close>, is accepted; and a
  male child of 8 with BMI 40, a valid gender and a valid age, is not answered: the
  percentile is above 100 and the z-score computation raises.
\<close>

theorem estimator_accepts_upper_case_counterexample:
  "''MALE'' \<notin> set [''male'', ''female'']
   \<and> calculate_bmi_percentile_and_zscore (replicate 10000 0) 8 16.5 ''MALE'' = Inr (71.875, 0)
   \<and> calculate_bmi_percentile_and_zscore (replicate 10000 0) 8 40 ''male''
       = Inl ValueError_percentile_range"
  using estimate_male_8_16_5 [of "''MALE''" 10000 0] estimator_raises_above_100 [of "replicate 10000 0"]
  by (simp add: lower_MALE)

text \<open>
  Claim C8: the categorizer always returns one of the four categories; when the
  estimator returns a pair the category follows the percentile thresholds 5, 85 and 97,
  and when the estimator raises, whatever the error, the adult thresholds 18.5, 25 and
  30 decide.
\<close>

theorem get_bmi_category_total:
  "get_bmi_category samples bmi age_years gender \<in> set [''Underweight'', ''Normal'', ''Overweight'', ''Obese'']
   \<and> (\<forall>percentile z_score.
        calculate_bmi_percentile_and_zscore samples age_years bmi gender = Inr (percentile, z_score) \<longrightarrow>
        get_bmi_category samples bmi age_years gender =
          (if percentile < 5 then ''Underweight'' else if percentile < 85 then ''Normal''
           else if percentile < 97 then ''Overweight'' else ''Obese''))
   \<and> (\<forall>e. calculate_bmi_percentile_and_zscore samples age_years bmi gender = Inl e \<longrightarrow>
        get_bmi_category samples bmi age_years gender =
          (if bmi < 18.5 then ''Underweight'' else if bmi < 25 then ''Normal''
           else if bmi < 30 then ''Overweight'' else ''Obese''))"
proof (cases "calculate_bmi_percentile_and_zscore samples age_years bmi gender")
  case (Inl e)
  then show ?thesis by (simp add: get_bmi_category_def)
next
  case (Inr r)
  then show ?thesis by (cases r) (simp add: get_bmi_category_def)
qed

theorem get_bmi_category_total_witness:
  "get_bmi_category (replicate 10000 0) 16.5 8 ''male'' = ''Normal''
   \<and> get_bmi_category (replicate 10000 0) 16.5 8 ''unknown'' = ''Underweight''
   \<and> get_bmi_category (replicate 10000 0) 40 8 ''male'' = ''Obese''"
proof -
  have e1: "calculate_bmi_percentile_and_zscore (replicate 10000 0) 8 16.5 ''male'' = Inr (71.875, 0)"
    using estimate_male_8_16_5 [of "''male''" 10000 0] by (simp add: lower_male)
  have e2: "calculate_bmi_percentile_and_zscore (replicate 10000 0) 8 16.5 ''unknown'' = Inl ValueError_gender"
    by (simp add: calculate_bmi_percentile_and_zscore_def calculate_bmi_percentile_def lower_unknown)
  have 1: "get_bmi_category (replicate 10000 0) 16.5 8 ''male'' = ''Normal''"
    using get_bmi_category_total [of "replicate 10000 0" "16.5" 8 "''male''",
        THEN conjunct2, THEN conjunct1, rule_format, OF e1] by simp
  have 2: "get_bmi_category (replicate 10000 0) 16.5 8 ''unknown'' = ''Underweight''"
    using get_bmi_category_total [of "replicate 10000 0" "16.5" 8 "''unknown''",
        THEN conjunct2, THEN conjunct2, rule_format, OF e2] by simp
  have 3: "get_bmi_category (replicate 10000 0) 40 8 ''male'' = ''Obese''"
    using get_bmi_category_total [of "replicate 10000 0" 40 8 "''male''",
        THEN conjunct2, THEN conjunct2, rule_format,
        OF estimator_raises_above_100 [of "replicate 10000 0"]] by simp
  show ?thesis using 1 2 3 by blast
qed

section \<open>The estimator: monotone percentile, sampled z-score\<close>

text \<open>
  Claim C4: for a valid age and gender the percentile is non-decreasing in the BMI.
  The percentile is computed for every BMI, and whenever the estimator returns for two
  BMIs in order, the returned percentiles are in the same order.
\<close>

theorem percentile_monotone_in_bmi:
  assumes "lower gender \<in> set [''male'', ''female'']" and "2 \<le> age_years" and "age_years \<le> 19"
    and "0 < bmi1" and "bmi1 \<le> bmi2"
  shows "\<exists>p1 p2. calculate_bmi_percentile age_years bmi1 gender = Inr p1
           \<and> calculate_bmi_percentile age_years bmi2 gender = Inr p2
           \<and> p1 \<le> p2
           \<and> (\<forall>s1 s2 q1 z1 q2 z2.
                 calculate_bmi_percentile_and_zscore s1 age_years bmi1 gender = Inr (q1, z1)
                 \<and> calculate_bmi_percentile_and_zscore s2 age_years bmi2 gender = Inr (q2, z2)
                 \<longrightarrow> q1 \<le> q2)"
proof -
  obtain row where row: "band_thresholds_ok row"
      "\<And>b. calculate_bmi_percentile age_years b gender = Inr (interpolate_percentile b row)"
    using percentile_row [OF assms(1,2,3)] by blast
  have m: "interpolate_percentile bmi1 row \<le> interpolate_percentile bmi2 row"
    using interpolate_mono [OF row(1) assms(5)] .
  show ?thesis
  proof (intro exI conjI)
    show "calculate_bmi_percentile age_years bmi1 gender = Inr (interpolate_percentile bmi1 row)"
      by (rule row(2))
    show "calculate_bmi_percentile age_years bmi2 gender = Inr (interpolate_percentile bmi2 row)"
      by (rule row(2))
    show "interpolate_percentile bmi1 row \<le> interpolate_percentile bmi2 row" by (rule m)
    show "\<forall>s1 s2 q1 z1 q2 z2.
            calculate_bmi_percentile_and_zscore s1 age_years bmi1 gender = Inr (q1, z1)
            \<and> calculate_bmi_percentile_and_zscore s2 age_years bmi2 gender = Inr (q2, z2)
            \<longrightarrow> q1 \<le> q2"
      using m by (auto simp: estimator_Inr_iff row(2))
  qed
qed

theorem percentile_monotone_in_bmi_witness:
  "\<exists>p1 p2. calculate_bmi_percentile 8 14 ''male'' = Inr p1
     \<and> calculate_bmi_percentile 8 16.5 ''male'' = Inr p2 \<and> p1 \<le> p2"
proof -
  have g: "lower ''male'' \<in> set [''male'', ''female'']" by (simp add: lower_male)
  show ?thesis
    using percentile_monotone_in_bmi [OF g, of 8 14 "16.5"] by simp blast
qed

lemma np_percentile_sort_cong:
  assumes "sort s1 = sort s2"
  shows "np_percentile s1 q = np_percentile s2 q"
proof -
  have "s1 = [] \<longleftrightarrow> s2 = []"
    using assms by (metis length_sort length_0_conv)
  then show ?thesis using assms by (simp add: np_percentile_def)
qed

text \<open>
  Claim C2, as amended. The percentile is a function of age, BMI and gender alone. The
  z-score is read from the empirical percentile of the samples drawn in the call, so
  two calls agree on the percentile, and agree on the z-score when they draw the same
  samples up to order.
\<close>

theorem percentile_deterministic_zscore_sampled:
  assumes "calculate_bmi_percentile_and_zscore s1 age_years bmi gender = Inr (p1, z1)"
    and "calculate_bmi_percentile_and_zscore s2 age_years bmi gender = Inr (p2, z2)"
  shows "p1 = p2 \<and> z_score_of s1 p1 = Inr z1 \<and> z_score_of s2 p2 = Inr z2
         \<and> (sort s1 = sort s2 \<longrightarrow> z1 = z2)"
proof -
  have a: "calculate_bmi_percentile age_years bmi gender = Inr p1" "z_score_of s1 p1 = Inr z1"
    using assms(1) by (simp_all add: estimator_Inr_iff)
  have b: "calculate_bmi_percentile age_years bmi gender = Inr p2" "z_score_of s2 p2 = Inr z2"
    using assms(2) by (simp_all add: estimator_Inr_iff)
  have p: "p1 = p2" using a(1) b(1) by simp
  have "z1 = z2" if "sort s1 = sort s2"
  proof -
    have "z_score_of s1 p1 = z_score_of s2 p1"
      using np_percentile_sort_cong [OF that] by (simp add: z_score_of_def)
    then show ?thesis using a(2) b(2) p by simp
  qed
  then show ?thesis using a(2) b(2) p by blast
qed

theorem percentile_deterministic_zscore_sampled_witness:
  "z_score_of (replicate 10000 0) 71.875 = Inr 0
   \<and> z_score_of (replicate 10000 1) 71.875 = Inr 1"
proof -
  have e0: "calculate_bmi_percentile_and_zscore (replicate 10000 0) 8 16.5 ''male'' = Inr (71.875, 0)"
    using estimate_male_8_16_5 [of "''male''" 10000 0] by (simp add: lower_male)
  have e1: "calculate_bmi_percentile_and_zscore (replicate 10000 1) 8 16.5 ''male'' = Inr (71.875, 1)"
    using estimate_male_8_16_5 [of "''male''" 10000 1] by (simp add: lower_male)
  show ?thesis
    using percentile_deterministic_zscore_sampled [OF e0 e1] by blast
qed

text \<open>
  Claim C2 as stated fails: two calls with the same arguments and two different draws
  return two different z-scores.
\<close>

theorem estimator_depends_on_draw_counterexample:
  "calculate_bmi_percentile_and_zscore (replicate 10000 0) 8 16.5 ''male'' = Inr (71.875, 0)
   \<and> calculate_bmi_percentile_and_zscore (replicate 10000 1) 8 16.5 ''male'' = Inr (71.875, 1)"
proof -
  have e0: "calculate_bmi_percentile_and_zscore (replicate 10000 0) 8 16.5 ''male'' = Inr (71.875, 0)"
    using estimate_male_8_16_5 [of "''male''" 10000 0] by (simp add: lower_male)
  have e1: "calculate_bmi_percentile_and_zscore (replicate 10000 1) 8 16.5 ''male'' = Inr (71.875, 1)"
    using estimate_male_8_16_5 [of "''male''" 10000 1] by (simp add: lower_male)
  show ?thesis using e0 e1 by blast
qed

section \<open>The image classifier: nearest centroid and the fallback flag\<close>








text \<open>
  Claim C3 fails on the code. With reference images for both skin classes and none for
  nails, initialisation computes two usable skin centroids, yet sets the shared flag
  \<open>_use_heuristic_fallback\<close> because the nail dictionary has no centroid: \<open>predict_skin\<close>
  answers from the HSV heuristic (healthy, 0.75 for a saturated bright image), where the
  nearest-centroid path over the same skin centroids answers unhealthy at confidence 0.99.
\<close>

theorem skin_falls_back_when_nails_missing:
  "skin_class_to_centroid (ensure_initialized skin_only_dataset initial_state)
     = Some [(''healthy_skin'', Some [0]), (''unhealthy_skin'', Some [10])]
   \<and> has_valid_centroids [(''healthy_skin'', Some [0]), (''unhealthy_skin'', Some [10])]
   \<and> use_heuristic_fallback (ensure_initialized skin_only_dataset initial_state)
   \<and> fst (predict_skin skin_only_dataset initial_state (reference_image 10))
       = Inr (''healthy_skin'', 0.75)
   \<and> nearest_centroid (resnet_feature (reference_image 10))
         [(''healthy_skin'', Some [0]), (''unhealthy_skin'', Some [10])]
       = Inr (''unhealthy_skin'', 0.99)"
proof -
  have st: "ensure_initialized skin_only_dataset initial_state =
      \<lparr>nail_class_to_centroid = Some [(''healthy_nails'', None), (''unhealthy_nails'', None)],
       skin_class_to_centroid = Some [(''healthy_skin'', Some [0]), (''unhealthy_skin'', Some [10])],
       use_heuristic_fallback = True\<rparr>"
    by (simp add: ensure_initialized_def initial_state_def compute_centroids_def Let_def
        NAIL_CLASSES_def SKIN_CLASSES_def skin_only_dataset_def class_features_def
        mean_centroids_def np_mean_axis0_def reference_image_def)
  have v: "has_valid_centroids [(''healthy_skin'', Some [0]), (''unhealthy_skin'', Some [10::real])]"
    by (simp add: has_valid_centroids_def)
  have p: "fst (predict_skin skin_only_dataset initial_state (reference_image 10))
       = Inr (''healthy_skin'', 0.75)"
    unfolding predict_skin_def st
    by (simp add: simple_hsv_heuristic_def reference_image_def Let_def)
  have a: "norm_diff [10] [0] = 10" by (simp add: norm_diff_def)
  have b: "norm_diff [10] [10] = 0" by (simp add: norm_diff_def)
  have n: "nearest_centroid (resnet_feature (reference_image 10))
         [(''healthy_skin'', Some [0]), (''unhealthy_skin'', Some [10])]
       = Inr (''unhealthy_skin'', 0.99)"
    by (simp add: nearest_centroid_def reference_image_def a b Let_def)
  show ?thesis using st v p n by simp
qed

end
